theory Spec2Isabelle
  imports Complex_Main
begin

section \<open>Conventions\<close>

text \<open>
  The forms of the inventory console keep their state in React hooks and change it in
  event handlers. Each handler is embedded as a function from the state before the event
  to the state after it; a handler that ends in a toast and an early \<^verbatim>\<open>return\<close> yields the
  toast and no saved record.

  A JavaScript \<^verbatim>\<open>number\<close> is embedded as a \<^typ>\<open>real\<close>: rounding, \<^verbatim>\<open>NaN\<close> and the
  infinities of IEEE doubles are left out, except for the sales-order form in the claim on
  the signs of its totals, which is embedded over numbers that have them. Where the source turns a parse result that is
  \<^verbatim>\<open>NaN\<close> into \<^verbatim>\<open>0\<close>, the parse result is a \<^typ>\<open>real option\<close> and \<^term>\<open>None\<close> is
  \<^verbatim>\<open>NaN\<close>. An optional field \<^verbatim>\<open>f?: T\<close> is a \<^typ>\<open>'a option\<close>. A \<^verbatim>\<open>Date\<close> is its
  number of milliseconds, and every value the source draws from the clock or from
  \<^verbatim>\<open>Math.random\<close> is a parameter.
\<close>

section \<open>The bill form: \<^verbatim>\<open>BillFormModal.tsx\<close>\<close>

datatype bill_status = Unpaid | PartiallyPaid | Paid

record BillFormData =
  bill_id :: "string option"
  billNo :: string
  purchaseOrderId :: string
  poReference :: string
  supplierName :: string
  amount :: real
  paidAmount :: real
  date :: int
  dueDate :: int
  status :: bill_status
  bill_notes :: string

text \<open>
  The form receives the purchase orders as \<^verbatim>\<open>any[]\<close>; their declaration and the
  list the page passes (\<^verbatim>\<open>mockPurchaseOrders\<close>) are not among the sources. The list is a
  parameter, and the record holds the fields the form reads: \<^verbatim>\<open>id\<close>,
  \<^verbatim>\<open>referenceNo\<close>, \<^verbatim>\<open>supplierId\<close>, \<^verbatim>\<open>grandTotal\<close> and \<^verbatim>\<open>status\<close>. A field
  that the form guards against \<^verbatim>\<open>undefined\<close> is an option.
\<close>

record PurchaseOrder =
  po_id :: "string option"
  po_referenceNo :: string
  supplierId :: "string option"
  po_grandTotal :: "real option"
  po_status :: string

text \<open>\<^verbatim>\<open>SupplierFormData\<close>, of which the bill form reads \<^verbatim>\<open>id\<close> and \<^verbatim>\<open>shopName\<close>.\<close>

record SupplierFormData =
  supplier_id :: "string option"
  shopName :: string
  contactName :: string
  email :: string
  phone :: string
  address :: string
  details :: string
  supplier_status :: string

text \<open>The properties of the component that its handlers read.\<close>

record bill_props =
  bill :: "BillFormData option"
  purchaseOrders :: "PurchaseOrder list"
  suppliers :: "SupplierFormData list"

text \<open>The two hooks of the component: \<^verbatim>\<open>formData\<close> and \<^verbatim>\<open>newPaymentAmount\<close>.\<close>

record bill_form =
  formData :: BillFormData
  newPaymentAmount :: real

text \<open>
  \<^verbatim>\<open>defaultFormData\<close> (lines 61-72); \<open>now\<close> is the clock, and the due date lies 30 days
  after it.
\<close>

definition bill_defaultFormData :: "int \<Rightarrow> BillFormData" where
  "bill_defaultFormData now =
     \<lparr>bill_id = None, billNo = [], purchaseOrderId = [], poReference = [],
      supplierName = [], amount = 0, paidAmount = 0, date = now,
      dueDate = now + 86400000 * 30, status = Unpaid, bill_notes = []\<rparr>"

text \<open>
  The effect that fills the form when it opens (lines 77-91). Spreading a bill over the
  defaults gives the bill, since every field the defaults have is a field of the bill.
  \<open>genNo\<close> is the generated bill number of a new bill.
\<close>

definition bill_form_open :: "int \<Rightarrow> string \<Rightarrow> BillFormData option \<Rightarrow> bill_form" where
  "bill_form_open now genNo b =
     (case b of
        Some bl \<Rightarrow> \<lparr>formData = bl, newPaymentAmount = 0\<rparr>
      | None \<Rightarrow> \<lparr>formData = (bill_defaultFormData now)\<lparr>billNo := genNo\<rparr>,
                  newPaymentAmount = 0\<rparr>)"

text \<open>
  \<^verbatim>\<open>handlePurchaseOrderChange\<close> (lines 93-106). \<^verbatim>\<open>x || y\<close> is \<open>y\<close> when \<open>x\<close> is
  \<^verbatim>\<open>undefined\<close>, the empty string or zero.
\<close>

definition handlePurchaseOrderChange ::
    "PurchaseOrder list \<Rightarrow> SupplierFormData list \<Rightarrow> string \<Rightarrow> bill_form \<Rightarrow> bill_form" where
  "handlePurchaseOrderChange pos sups poId s =
     (case find (\<lambda>p. po_id p = Some poId) pos of
        None \<Rightarrow> s
      | Some po \<Rightarrow>
          let supplier = find (\<lambda>sp. supplier_id sp = supplierId po) sups in
          s\<lparr>formData := (formData s)
              \<lparr>purchaseOrderId := poId,
               poReference := po_referenceNo po,
               supplierName :=
                 (case supplier of
                    None \<Rightarrow> ''Unknown Supplier''
                  | Some sp \<Rightarrow> if shopName sp = [] then ''Unknown Supplier'' else shopName sp),
               amount := (case po_grandTotal po of None \<Rightarrow> 0 | Some g \<Rightarrow> g),
               paidAmount := 0\<rparr>\<rparr>)"

text \<open>
  \<^verbatim>\<open>handleStatusChange\<close> (lines 108-119). The remaining due is computed from the form
  as it is when the event arrives.
\<close>

definition handleStatusChange :: "bill_status \<Rightarrow> bill_form \<Rightarrow> bill_form" where
  "handleStatusChange st s =
     (let fd = formData s;
          s1 = s\<lparr>formData := fd\<lparr>status := st\<rparr>\<rparr>
      in
      if st = Paid then s1\<lparr>newPaymentAmount := max 0 (amount fd - paidAmount fd)\<rparr>
      else if st = Unpaid then
        s1\<lparr>newPaymentAmount := 0, formData := (formData s1)\<lparr>paidAmount := 0\<rparr>\<rparr>
      else s1)"

text \<open>
  \<^verbatim>\<open>handleChange\<close> (lines 121-137), on a field and a value of the field's type. The
  two amount fields are clamped at zero.
\<close>

datatype bill_change =
    ChangeBillNo string
  | ChangeAmount real
  | ChangePaidAmount real
  | ChangeDate int
  | ChangeDueDate int
  | ChangeNotes string

fun bill_handleChange :: "bill_change \<Rightarrow> bill_form \<Rightarrow> bill_form" where
  "bill_handleChange (ChangeBillNo v) s = s\<lparr>formData := (formData s)\<lparr>billNo := v\<rparr>\<rparr>"
| "bill_handleChange (ChangeAmount v) s = s\<lparr>formData := (formData s)\<lparr>amount := max 0 v\<rparr>\<rparr>"
| "bill_handleChange (ChangePaidAmount v) s =
     s\<lparr>formData := (formData s)\<lparr>paidAmount := max 0 v\<rparr>\<rparr>"
| "bill_handleChange (ChangeDate v) s = s\<lparr>formData := (formData s)\<lparr>date := v\<rparr>\<rparr>"
| "bill_handleChange (ChangeDueDate v) s = s\<lparr>formData := (formData s)\<lparr>dueDate := v\<rparr>\<rparr>"
| "bill_handleChange (ChangeNotes v) s = s\<lparr>formData := (formData s)\<lparr>bill_notes := v\<rparr>\<rparr>"

text \<open>
  The \<^verbatim>\<open>onChange\<close> of the input "Pay Now" (lines 425-431); \<open>val\<close> is the result of
  \<^verbatim>\<open>parseFloat\<close>.
\<close>

definition payNow_onChange :: "real option \<Rightarrow> bill_form \<Rightarrow> bill_form" where
  "payNow_onChange val s =
     s\<lparr>newPaymentAmount := (case val of None \<Rightarrow> 0 | Some v \<Rightarrow> max 0 v)\<rparr>"

text \<open>The toasts \<^verbatim>\<open>handleSubmit\<close> can raise, named by their titles.\<close>

datatype toast = SelectionRequired | InvalidAmount | StatusUpdated | InsufficientPayment

text \<open>
  \<^verbatim>\<open>handleSubmit\<close> (lines 139-188). The result is the list of toasts shown and the
  record passed to \<^verbatim>\<open>onSave\<close>, if \<^verbatim>\<open>onSave\<close> is called. \<^verbatim>\<open>!formData.purchaseOrderId\<close>
  holds of the empty string only. The second status test reads \<^verbatim>\<open>formData.status\<close>, not
  \<^verbatim>\<open>finalStatus\<close>, so a promoted partial payment never reaches it.
\<close>

definition bill_handleSubmit :: "bill_form \<Rightarrow> toast list \<times> BillFormData option" where
  "bill_handleSubmit s =
     (let fd = formData s in
      if purchaseOrderId fd = [] then ([SelectionRequired], None)
      else
        let totalPaid = min (amount fd) (paidAmount fd + newPaymentAmount s) in
        if status fd = PartiallyPaid \<and> totalPaid \<le> 0 then ([InvalidAmount], None)
        else
          let settled = (status fd = PartiallyPaid \<and> totalPaid \<ge> amount fd);
              finalStatus = (if settled then Paid else status fd)
          in
          if status fd = Paid \<and> totalPaid < amount fd then ([InsufficientPayment], None)
          else
            (if settled then [StatusUpdated] else [],
             Some (fd\<lparr>status := finalStatus, paidAmount := totalPaid\<rparr>)))"

subsection \<open>The events of the bill form\<close>

text \<open>
  What the user can do to the open form, as the markup allows it:
  \<^item> the purchase-order select is disabled when the form edits a bill that has an
    identifier (line 227), and offers the completed purchase orders only (line 234);
  \<^item> the status select is disabled until a purchase order is chosen (line 373);
  \<^item> the input "Pay Now" exists only while the status is "Partially Paid" (line 386);
  \<^item> the bill number can be regenerated and the two dates picked at any time.
  An event on a control that is disabled or absent leaves the form as it is.
\<close>

definition truthy_id :: "string option \<Rightarrow> bool" where
  "truthy_id i = (case i of None \<Rightarrow> False | Some s \<Rightarrow> s \<noteq> [])"

datatype bill_event =
    SelectPurchaseOrder string
  | SelectStatus bill_status
  | TypePayNow "real option"
  | RegenerateBillNo string
  | PickDate int
  | PickDueDate int

definition po_select_disabled :: "bill_props \<Rightarrow> bool" where
  "po_select_disabled pr = (case bill pr of None \<Rightarrow> False | Some b \<Rightarrow> truthy_id (bill_id b))"

definition po_offered :: "bill_props \<Rightarrow> string \<Rightarrow> bool" where
  "po_offered pr poId =
     (Some poId \<in> set (map po_id (filter (\<lambda>po. po_status po = ''Completed'') (purchaseOrders pr))))"

fun bill_ui_step :: "bill_props \<Rightarrow> bill_form \<Rightarrow> bill_event \<Rightarrow> bill_form" where
  "bill_ui_step pr s (SelectPurchaseOrder poId) =
     (if po_select_disabled pr \<or> \<not> po_offered pr poId then s
      else handlePurchaseOrderChange (purchaseOrders pr) (suppliers pr) poId s)"
| "bill_ui_step pr s (SelectStatus st) =
     (if purchaseOrderId (formData s) = [] then s else handleStatusChange st s)"
| "bill_ui_step pr s (TypePayNow val) =
     (if status (formData s) = PartiallyPaid then payNow_onChange val s else s)"
| "bill_ui_step pr s (RegenerateBillNo v) = bill_handleChange (ChangeBillNo v) s"
| "bill_ui_step pr s (PickDate v) = bill_handleChange (ChangeDate v) s"
| "bill_ui_step pr s (PickDueDate v) = bill_handleChange (ChangeDueDate v) s"

text \<open>
  A session of the form: it opens on the bill of the properties, the events arrive in
  order, and the form is submitted.
\<close>

definition bill_session :: "int \<Rightarrow> string \<Rightarrow> bill_props \<Rightarrow> bill_event list \<Rightarrow> bill_form" where
  "bill_session now genNo pr evs = foldl (bill_ui_step pr) (bill_form_open now genNo (bill pr)) evs"

text \<open>The invariant of a bill that the specification states.\<close>

definition bill_invariant :: "BillFormData \<Rightarrow> bool" where
  "bill_invariant b =
     ((status b = Paid \<longrightarrow> paidAmount b \<ge> amount b) \<and>
      (status b = Unpaid \<longrightarrow> paidAmount b = 0))"

text \<open>
  The invariant the form keeps between events: the bill amount is not negative, and
  while the status is "Unpaid" nothing is paid and nothing is about to be paid.
\<close>

definition bill_form_inv :: "bill_form \<Rightarrow> bool" where
  "bill_form_inv s =
     (0 \<le> amount (formData s) \<and>
      (status (formData s) = Unpaid \<longrightarrow> paidAmount (formData s) = 0 \<and> newPaymentAmount s = 0))"

definition po_totals_nonneg :: "PurchaseOrder list \<Rightarrow> bool" where
  "po_totals_nonneg pos =
     list_all (\<lambda>po. case po_grandTotal po of None \<Rightarrow> True | Some g \<Rightarrow> 0 \<le> g) pos"

subsection \<open>The page that stores the bills: \<^verbatim>\<open>Bills.tsx\<close>\<close>

text \<open>
  \<^verbatim>\<open>handleSaveBill\<close> (lines 122-132) on the \<^verbatim>\<open>bills\<close> hook. \<^verbatim>\<open>data.id\<close> is truthy when
  it is a non-empty string. The new identifier is \<^verbatim>\<open>bill-${Date.now()}\<close>; \<open>stamp\<close> is
  the clock value in decimal.
\<close>

definition handleSaveBill :: "string \<Rightarrow> BillFormData \<Rightarrow> BillFormData list \<Rightarrow> BillFormData list" where
  "handleSaveBill stamp data bills =
     (if truthy_id (bill_id data)
      then map (\<lambda>b. if bill_id b = bill_id data then data else b) bills
      else (data\<lparr>bill_id := Some (''bill-'' @ stamp)\<rparr>) # bills)"

text \<open>
  The page passes \<^verbatim>\<open>handleSaveBill\<close> to the form as \<^verbatim>\<open>onSave\<close> (line 297): the
  stored bills after a submission of the form.
\<close>

definition bills_after_submit :: "string \<Rightarrow> bill_form \<Rightarrow> BillFormData list \<Rightarrow> BillFormData list" where
  "bills_after_submit stamp s bills =
     (case snd (bill_handleSubmit s) of
        None \<Rightarrow> bills
      | Some data \<Rightarrow> handleSaveBill stamp data bills)"

subsection \<open>Sample states of the bill form\<close>

text \<open>
  A bill of 100 with 40 paid, declared "Partially Paid", and the form that adds a payment
  of 60 to it; the same bill declared "Paid" with a payment of 30; the same bill with no
  payment at all.
\<close>

definition sample_bill :: BillFormData where
  "sample_bill =
     \<lparr>bill_id = Some ''bill-7'', billNo = ''BILL-2024-0007'', purchaseOrderId = ''po-7'',
      poReference = ''PO-00107'', supplierName = ''ElectroTech Traders'', amount = 100,
      paidAmount = 40, date = 0, dueDate = 2592000000, status = PartiallyPaid,
      bill_notes = []\<rparr>"

definition settling_form :: bill_form where
  "settling_form = \<lparr>formData = sample_bill, newPaymentAmount = 60\<rparr>"

definition short_paid_form :: bill_form where
  "short_paid_form =
     \<lparr>formData = sample_bill\<lparr>paidAmount := 0, status := Paid\<rparr>, newPaymentAmount = 30\<rparr>"

definition nothing_paid_form :: bill_form where
  "nothing_paid_form = \<lparr>formData = sample_bill\<lparr>paidAmount := 0\<rparr>, newPaymentAmount = 0\<rparr>"

text \<open>The settling form before a purchase order is chosen.\<close>

definition unselected_form :: bill_form where
  "unselected_form =
     \<lparr>formData = sample_bill\<lparr>purchaseOrderId := []\<rparr>, newPaymentAmount = 60\<rparr>"

text \<open>An unpaid bill whose amount is negative, and the form opened on it.\<close>

definition credit_bill :: BillFormData where
  "credit_bill = sample_bill\<lparr>amount := - 5, paidAmount := 0, status := Unpaid\<rparr>"

definition credit_props :: bill_props where
  "credit_props = \<lparr>bill = Some credit_bill, purchaseOrders = [], suppliers = []\<rparr>"

text \<open>
  The form opened on the sample bill, with one completed purchase order on offer: the
  user types a payment of 25 and then declares the bill "Unpaid".
\<close>

definition sample_po :: PurchaseOrder where
  "sample_po =
     \<lparr>po_id = Some ''po-9'', po_referenceNo = ''PO-00109'', supplierId = Some ''sup-1'',
      po_grandTotal = Some 250, po_status = ''Completed''\<rparr>"

definition edit_props :: bill_props where
  "edit_props = \<lparr>bill = Some sample_bill, purchaseOrders = [sample_po], suppliers = []\<rparr>"

definition edit_events :: "bill_event list" where
  "edit_events = [TypePayNow (Some 25), SelectStatus Unpaid]"

section \<open>The product form: \<^verbatim>\<open>ProductFormModal.tsx\<close>\<close>

record ProductFormData =
  product_id :: "string option"
  product_name :: string
  category :: string
  sku :: string
  costPrice :: real
  product_sellingPrice :: real
  stock :: real
  image :: "string option"
  unitType :: string
  minStock :: real
  product_status :: string
  isActive :: bool

text \<open>
  \<^verbatim>\<open>handleSubmit\<close> of the product form (lines 129-143): the record passed to
  \<^verbatim>\<open>onSave\<close>. The status is assigned twice, as in the source.
\<close>

definition product_handleSubmit :: "ProductFormData \<Rightarrow> ProductFormData" where
  "product_handleSubmit fd =
     (let calculatedStatus = (if isActive fd then ''Active'' else ''Inactive'');
          calculatedStatus =
            (if isActive fd \<and> stock fd = 0 then ''Out of Stock''
             else if isActive fd \<and> stock fd \<le> minStock fd then ''Low Stock''
             else calculatedStatus)
      in fd\<lparr>product_status := calculatedStatus\<rparr>)"

text \<open>
  The derivation of the status in the words of the specification, the clauses read in
  the order in which they are listed and the first that applies taken: "Out of Stock" if
  the product is active and the stock is 0, "Low Stock" if it is active and the stock is
  above 0 and at most the minimum, "Active" if it is active and the stock is above the
  minimum, "Inactive" if it is not active. Where no clause applies there is no status.
\<close>

definition status_by_specification :: "bool \<Rightarrow> real \<Rightarrow> real \<Rightarrow> string option" where
  "status_by_specification active st mn =
     (if active \<and> st = 0 then Some ''Out of Stock''
      else if active \<and> 0 < st \<and> st \<le> mn then Some ''Low Stock''
      else if active \<and> st > mn then Some ''Active''
      else if \<not> active then Some ''Inactive''
      else None)"

text \<open>The default product of the form (lines 59-70), and the same product with 25 in stock.\<close>

definition product_defaultFormData :: ProductFormData where
  "product_defaultFormData =
     \<lparr>product_id = None, product_name = [], category = [], sku = [], costPrice = 0,
      product_sellingPrice = 0, stock = 0, image = None, unitType = ''pcs'', minStock = 10,
      product_status = ''Active'', isActive = True\<rparr>"

definition stocked_product :: ProductFormData where
  "stocked_product = product_defaultFormData\<lparr>product_id := Some ''P-001'', stock := 25\<rparr>"

section \<open>The sales-order form: \<^verbatim>\<open>SalesOrderFormModal.tsx\<close>\<close>

record SalesOrderItem =
  item_id :: string
  productId :: string
  quantity :: real
  sellingPrice :: real
  item_total :: real

datatype order_status = Pending | Shipped | Completed | Cancelled

record SalesOrderFormData =
  order_id :: "string option"
  referenceNo :: string
  order_date :: int
  customerName :: string
  items :: "SalesOrderItem list"
  order_notes :: string
  order_status :: order_status
  subTotal :: real
  gstPercentage :: "real option"
  gstAmount :: real
  grandTotal :: real

text \<open>\<^verbatim>\<open>defaultFormData\<close> of the sales-order form (lines 100-111).\<close>

definition order_defaultFormData :: "int \<Rightarrow> SalesOrderFormData" where
  "order_defaultFormData now =
     \<lparr>order_id = None, referenceNo = [], order_date = now, customerName = [], items = [],
      order_notes = [], order_status = Pending, subTotal = 0, gstPercentage = Some 0,
      gstAmount = 0, grandTotal = 0\<rparr>"

text \<open>
  The effect that fills the form when it opens (lines 116-126). \<open>genRef\<close> is the
  reference number that \<^verbatim>\<open>generateUniqueRef\<close> drew for a new order.
\<close>

definition order_form_open :: "int \<Rightarrow> string \<Rightarrow> SalesOrderFormData option \<Rightarrow> SalesOrderFormData" where
  "order_form_open now genRef editing =
     (case editing of
        Some existing \<Rightarrow> existing
      | None \<Rightarrow> (order_defaultFormData now)\<lparr>referenceNo := genRef\<rparr>)"

text \<open>\<^verbatim>\<open>handleAddItem\<close> (lines 163-177); \<open>rowId\<close> is what \<^verbatim>\<open>generateRowId\<close> drew.\<close>

definition handleAddItem :: "string \<Rightarrow> SalesOrderFormData \<Rightarrow> SalesOrderFormData" where
  "handleAddItem rowId prev =
     prev\<lparr>items := items prev @
       [\<lparr>item_id = rowId, productId = [], quantity = 1, sellingPrice = 0, item_total = 0\<rparr>]\<rparr>"

text \<open>
  \<^verbatim>\<open>handleRemoveItem\<close> (lines 179-195). \<^verbatim>\<open>reduce\<close> adds the totals from the left,
  starting at 0. \<^verbatim>\<open>prev.gstPercentage ? x : 0\<close> is 0 when the percentage is
  \<^verbatim>\<open>undefined\<close> or zero.
\<close>

definition handleRemoveItem :: "string \<Rightarrow> SalesOrderFormData \<Rightarrow> SalesOrderFormData" where
  "handleRemoveItem rowId prev =
     (let newItems = filter (\<lambda>item. item_id item \<noteq> rowId) (items prev);
          newSubTotal = foldl (\<lambda>sum item. sum + item_total item) 0 newItems;
          newGstAmount =
            (case gstPercentage prev of
               None \<Rightarrow> 0
             | Some g \<Rightarrow> if g = 0 then 0 else (newSubTotal * g) / 100);
          newGrandTotal = newSubTotal + newGstAmount
      in prev\<lparr>items := newItems, subTotal := newSubTotal, gstAmount := newGstAmount,
              grandTotal := newGrandTotal\<rparr>)"

text \<open>
  \<^verbatim>\<open>handleItemChange\<close> (lines 197-248) takes a field of the row and a value. The
  embedding takes the pairs of a field and a value of the field's type; a number is
  clamped at zero before it is stored.
\<close>

datatype item_change =
    ChangeItemId string
  | ChangeProductId string
  | ChangeQuantity real
  | ChangeSellingPrice real
  | ChangeTotal real

text \<open>\<^verbatim>\<open>{ ...item, [field]: updatedValue }\<close>\<close>

fun set_item_field :: "item_change \<Rightarrow> SalesOrderItem \<Rightarrow> SalesOrderItem" where
  "set_item_field (ChangeItemId v) item = item\<lparr>item_id := v\<rparr>"
| "set_item_field (ChangeProductId v) item = item\<lparr>productId := v\<rparr>"
| "set_item_field (ChangeQuantity v) item = item\<lparr>quantity := max 0 v\<rparr>"
| "set_item_field (ChangeSellingPrice v) item = item\<lparr>sellingPrice := max 0 v\<rparr>"
| "set_item_field (ChangeTotal v) item = item\<lparr>item_total := max 0 v\<rparr>"

text \<open>The fields whose change recomputes the total of the row (lines 220-226).\<close>

fun recalculates :: "item_change \<Rightarrow> bool" where
  "recalculates (ChangeQuantity v) = True"
| "recalculates (ChangeSellingPrice v) = True"
| "recalculates (ChangeProductId v) = True"
| "recalculates ch = False"

text \<open>The body of the \<^verbatim>\<open>map\<close> for the row that is changed (lines 205-228).\<close>

definition change_item :: "ProductFormData list \<Rightarrow> item_change \<Rightarrow> SalesOrderItem \<Rightarrow> SalesOrderItem" where
  "change_item products ch item =
     (let updatedItem = set_item_field ch item;
          updatedItem =
            (case ch of
               ChangeProductId v \<Rightarrow>
                 (case find (\<lambda>p. product_id p = Some v) products of
                    Some product \<Rightarrow> updatedItem\<lparr>sellingPrice := product_sellingPrice product\<rparr>
                  | None \<Rightarrow> updatedItem)
             | _ \<Rightarrow> updatedItem)
      in
      if recalculates ch
      then updatedItem\<lparr>item_total := quantity updatedItem * sellingPrice updatedItem\<rparr>
      else updatedItem)"

definition handleItemChange ::
    "ProductFormData list \<Rightarrow> string \<Rightarrow> item_change \<Rightarrow> SalesOrderFormData \<Rightarrow> SalesOrderFormData" where
  "handleItemChange products rowId ch prev =
     (let newItems =
            map (\<lambda>item. if item_id item = rowId then change_item products ch item else item)
              (items prev);
          newSubTotal = foldl (\<lambda>sum item. sum + item_total item) 0 newItems;
          newGstAmount =
            (case gstPercentage prev of
               None \<Rightarrow> 0
             | Some g \<Rightarrow> if g = 0 then 0 else (newSubTotal * g) / 100);
          newGrandTotal = newSubTotal + newGstAmount
      in prev\<lparr>items := newItems, subTotal := newSubTotal, gstAmount := newGstAmount,
              grandTotal := newGrandTotal\<rparr>)"

text \<open>\<^verbatim>\<open>handleGstChange\<close> (lines 250-262); \<open>val\<close> is the result of \<^verbatim>\<open>parseFloat\<close>.\<close>

definition handleGstChange :: "real option \<Rightarrow> SalesOrderFormData \<Rightarrow> SalesOrderFormData" where
  "handleGstChange val prev =
     (let gstPerc = (case val of None \<Rightarrow> 0 | Some v \<Rightarrow> max 0 v);
          gstAmount' = (subTotal prev * gstPerc) / 100
      in prev\<lparr>gstPercentage := Some gstPerc, gstAmount := gstAmount',
              grandTotal := subTotal prev + gstAmount'\<rparr>)"

subsection \<open>The events of the sales-order form\<close>

datatype order_event =
    AddItem string
  | RemoveItem string
  | ItemChange string item_change
  | GstChange "real option"

fun order_step :: "ProductFormData list \<Rightarrow> SalesOrderFormData \<Rightarrow> order_event \<Rightarrow> SalesOrderFormData" where
  "order_step products prev (AddItem rowId) = handleAddItem rowId prev"
| "order_step products prev (RemoveItem rowId) = handleRemoveItem rowId prev"
| "order_step products prev (ItemChange rowId ch) = handleItemChange products rowId ch prev"
| "order_step products prev (GstChange val) = handleGstChange val prev"

text \<open>
  The events the markup of the form can raise: the row inputs call
  \<^verbatim>\<open>handleItemChange\<close> with the product, the quantity or the price only (lines 450-514).
\<close>

fun ui_event :: "order_event \<Rightarrow> bool" where
  "ui_event (ItemChange rowId ch) = recalculates ch"
| "ui_event ev = True"

subsection \<open>Consistency of the totals\<close>

text \<open>The percentage the form shows: \<^verbatim>\<open>formData.gstPercentage || 0\<close>.\<close>

definition shown_gst :: "SalesOrderFormData \<Rightarrow> real" where
  "shown_gst f = (case gstPercentage f of None \<Rightarrow> 0 | Some g \<Rightarrow> g)"

definition rows_consistent :: "SalesOrderItem list \<Rightarrow> bool" where
  "rows_consistent its = list_all (\<lambda>item. item_total item = quantity item * sellingPrice item) its"

definition subTotal_consistent :: "SalesOrderFormData \<Rightarrow> bool" where
  "subTotal_consistent f = (subTotal f = sum_list (map item_total (items f)))"

definition order_consistent :: "SalesOrderFormData \<Rightarrow> bool" where
  "order_consistent f =
     (rows_consistent (items f) \<and>
      subTotal f = sum_list (map item_total (items f)) \<and>
      gstAmount f = subTotal f * shown_gst f / 100 \<and>
      grandTotal f = subTotal f + gstAmount f)"

subsection \<open>The orders the page starts with: \<^verbatim>\<open>SalesOrders.tsx\<close>\<close>

text \<open>\<^verbatim>\<open>initialOrders\<close> (lines 41-91); \<open>now\<close> is the clock.\<close>

definition initialOrders :: "int \<Rightarrow> SalesOrderFormData list" where
  "initialOrders now =
     [\<lparr>order_id = Some ''so-init-1'', referenceNo = ''SO-10025'',
       order_date = now - 86400000 * 1, customerName = ''Alice Smith'',
       items =
         [\<lparr>item_id = ''item-1'', productId = ''P-001'', quantity = 2, sellingPrice = 349.99,
           item_total = 699.98\<rparr>],
       order_notes = ''Direct walk-in customer'', order_status = Completed,
       subTotal = 699.98, gstPercentage = Some 18, gstAmount = 126.0, grandTotal = 825.98\<rparr>,
      \<lparr>order_id = Some ''so-init-2'', referenceNo = ''SO-10026'', order_date = now,
       customerName = ''Bob Jones'',
       items =
         [\<lparr>item_id = ''item-2'', productId = ''P-003'', quantity = 10, sellingPrice = 19.99,
           item_total = 199.9\<rparr>,
          \<lparr>item_id = ''item-3'', productId = ''P-005'', quantity = 5, sellingPrice = 12.5,
           item_total = 62.5\<rparr>],
       order_notes = ''Courier requested'', order_status = Pending,
       subTotal = 262.4, gstPercentage = Some 0, gstAmount = 0, grandTotal = 262.4\<rparr>]"


subsection \<open>Sample states of the sales-order form\<close>

text \<open>
  A catalogue of two products, and the second initial order of the page, with its two
  rows.
\<close>

definition sample_products :: "ProductFormData list" where
  "sample_products =
     [product_defaultFormData
        \<lparr>product_id := Some ''P-001'', product_name := ''Wireless Headphones'',
         product_sellingPrice := 349.99, stock := 25\<rparr>,
      product_defaultFormData
        \<lparr>product_id := Some ''P-003'', product_name := ''Cotton T-Shirt'',
         product_sellingPrice := 19.99, stock := 120\<rparr>]"

definition sample_order :: SalesOrderFormData where
  "sample_order =
     \<lparr>order_id = Some ''so-init-2'', referenceNo = ''SO-10026'', order_date = 0,
      customerName = ''Bob Jones'',
      items =
        [\<lparr>item_id = ''item-2'', productId = ''P-003'', quantity = 10, sellingPrice = 19.99,
          item_total = 199.9\<rparr>,
         \<lparr>item_id = ''item-3'', productId = ''P-005'', quantity = 5, sellingPrice = 12.5,
          item_total = 62.5\<rparr>],
      order_notes = ''Courier requested'', order_status = Pending,
      subTotal = 262.4, gstPercentage = Some 0, gstAmount = 0, grandTotal = 262.4\<rparr>"


section \<open>The sales-order form over JavaScript numbers\<close>

text \<open>
  Whether a total can fail to be at least 0 depends on what a \<^verbatim>\<open>number\<close> does beyond
  the finite range: a product or a sum that is too large is \<^verbatim>\<open>Infinity\<close>, and
  \<^verbatim>\<open>Infinity * 0\<close> is \<^verbatim>\<open>NaN\<close>, of which no comparison holds. For the claim on signs the
  four handlers of the form are embedded once more, over numbers with the two infinities
  and \<^verbatim>\<open>NaN\<close>. A finite result is kept as it is when it lies below the bound from which
  a double rounds to an infinity, \<open>2^1024 - 2^970\<close>; the rounding of finite results to
  the nearest double and the sign of zero are left out.
\<close>

datatype jsnum = Num real | PosInf | NegInf | NaN

definition overflow_bound :: real where
  "overflow_bound = 2 ^ 1024 - 2 ^ 970"

definition js_round :: "real \<Rightarrow> jsnum" where
  "js_round x =
     (if overflow_bound \<le> x then PosInf
      else if x \<le> - overflow_bound then NegInf
      else Num x)"

text \<open>\<^verbatim>\<open>a * b\<close>\<close>

fun js_mul :: "jsnum \<Rightarrow> jsnum \<Rightarrow> jsnum" where
  "js_mul NaN y = NaN"
| "js_mul x NaN = NaN"
| "js_mul (Num a) (Num b) = js_round (a * b)"
| "js_mul (Num a) PosInf = (if a = 0 then NaN else if 0 < a then PosInf else NegInf)"
| "js_mul (Num a) NegInf = (if a = 0 then NaN else if 0 < a then NegInf else PosInf)"
| "js_mul PosInf (Num b) = (if b = 0 then NaN else if 0 < b then PosInf else NegInf)"
| "js_mul NegInf (Num b) = (if b = 0 then NaN else if 0 < b then NegInf else PosInf)"
| "js_mul PosInf PosInf = PosInf"
| "js_mul PosInf NegInf = NegInf"
| "js_mul NegInf PosInf = NegInf"
| "js_mul NegInf NegInf = PosInf"

text \<open>\<^verbatim>\<open>a + b\<close>\<close>

fun js_add :: "jsnum \<Rightarrow> jsnum \<Rightarrow> jsnum" where
  "js_add NaN y = NaN"
| "js_add x NaN = NaN"
| "js_add (Num a) (Num b) = js_round (a + b)"
| "js_add (Num a) PosInf = PosInf"
| "js_add (Num a) NegInf = NegInf"
| "js_add PosInf (Num b) = PosInf"
| "js_add NegInf (Num b) = NegInf"
| "js_add PosInf PosInf = PosInf"
| "js_add PosInf NegInf = NaN"
| "js_add NegInf PosInf = NaN"
| "js_add NegInf NegInf = NegInf"

text \<open>\<^verbatim>\<open>a / 100\<close>, the one division of the handlers.\<close>

fun js_div100 :: "jsnum \<Rightarrow> jsnum" where
  "js_div100 (Num a) = js_round (a / 100)"
| "js_div100 x = x"

text \<open>\<^verbatim>\<open>Math.max(0, v)\<close>, which is \<^verbatim>\<open>NaN\<close> when \<open>v\<close> is.\<close>

fun js_max0 :: "jsnum \<Rightarrow> jsnum" where
  "js_max0 (Num a) = Num (max 0 a)"
| "js_max0 PosInf = PosInf"
| "js_max0 NegInf = Num 0"
| "js_max0 NaN = NaN"

text \<open>A number is truthy unless it is zero or \<^verbatim>\<open>NaN\<close>.\<close>

fun js_truthy :: "jsnum \<Rightarrow> bool" where
  "js_truthy (Num a) = (a \<noteq> 0)"
| "js_truthy NaN = False"
| "js_truthy x = True"

text \<open>\<^verbatim>\<open>v || 0\<close>\<close>

definition js_or0 :: "jsnum \<Rightarrow> jsnum" where
  "js_or0 v = (if js_truthy v then v else Num 0)"

text \<open>\<^verbatim>\<open>v >= 0\<close>\<close>

fun js_ge0 :: "jsnum \<Rightarrow> bool" where
  "js_ge0 (Num a) = (0 \<le> a)"
| "js_ge0 PosInf = True"
| "js_ge0 NegInf = False"
| "js_ge0 NaN = False"

fun js_finite :: "jsnum \<Rightarrow> bool" where
  "js_finite (Num a) = True"
| "js_finite x = False"

text \<open>
  The row and, of \<^verbatim>\<open>SalesOrderFormData\<close> and \<^verbatim>\<open>ProductFormData\<close>, the fields that the four
  handlers read or write; they spread every other field into the result unchanged.
\<close>

record js_item =
  row_id :: string
  row_productId :: string
  row_quantity :: jsnum
  row_sellingPrice :: jsnum
  row_total :: jsnum

record js_order =
  rows :: "js_item list"
  js_subTotal :: jsnum
  js_gstPercentage :: "jsnum option"
  js_gstAmount :: jsnum
  js_grandTotal :: jsnum

record js_product =
  catalog_id :: "string option"
  catalog_sellingPrice :: jsnum

text \<open>The number fields of \<^verbatim>\<open>defaultFormData\<close> (lines 100-111).\<close>

definition js_defaultFormData :: js_order where
  "js_defaultFormData =
     \<lparr>rows = [], js_subTotal = Num 0, js_gstPercentage = Some (Num 0), js_gstAmount = Num 0,
      js_grandTotal = Num 0\<rparr>"

text \<open>\<^verbatim>\<open>handleAddItem\<close> (lines 163-177)\<close>

definition js_handleAddItem :: "string \<Rightarrow> js_order \<Rightarrow> js_order" where
  "js_handleAddItem rowId prev =
     prev\<lparr>rows := rows prev @
       [\<lparr>row_id = rowId, row_productId = [], row_quantity = Num 1, row_sellingPrice = Num 0,
         row_total = Num 0\<rparr>]\<rparr>"

text \<open>\<^verbatim>\<open>handleRemoveItem\<close> (lines 179-195)\<close>

definition js_handleRemoveItem :: "string \<Rightarrow> js_order \<Rightarrow> js_order" where
  "js_handleRemoveItem rowId prev =
     (let newItems = filter (\<lambda>item. row_id item \<noteq> rowId) (rows prev);
          newSubTotal = foldl (\<lambda>sum item. js_add sum (row_total item)) (Num 0) newItems;
          newGstAmount =
            (case js_gstPercentage prev of
               None \<Rightarrow> Num 0
             | Some g \<Rightarrow> if js_truthy g then js_div100 (js_mul newSubTotal g) else Num 0);
          newGrandTotal = js_add newSubTotal newGstAmount
      in prev\<lparr>rows := newItems, js_subTotal := newSubTotal, js_gstAmount := newGstAmount,
              js_grandTotal := newGrandTotal\<rparr>)"

text \<open>\<^verbatim>\<open>handleItemChange\<close> (lines 197-248)\<close>

datatype js_change =
    JsChangeItemId string
  | JsChangeProductId string
  | JsChangeQuantity jsnum
  | JsChangeSellingPrice jsnum
  | JsChangeTotal jsnum

fun js_set_item_field :: "js_change \<Rightarrow> js_item \<Rightarrow> js_item" where
  "js_set_item_field (JsChangeItemId v) item = item\<lparr>row_id := v\<rparr>"
| "js_set_item_field (JsChangeProductId v) item = item\<lparr>row_productId := v\<rparr>"
| "js_set_item_field (JsChangeQuantity v) item = item\<lparr>row_quantity := js_max0 v\<rparr>"
| "js_set_item_field (JsChangeSellingPrice v) item = item\<lparr>row_sellingPrice := js_max0 v\<rparr>"
| "js_set_item_field (JsChangeTotal v) item = item\<lparr>row_total := js_max0 v\<rparr>"

fun js_recalculates :: "js_change \<Rightarrow> bool" where
  "js_recalculates (JsChangeQuantity v) = True"
| "js_recalculates (JsChangeSellingPrice v) = True"
| "js_recalculates (JsChangeProductId v) = True"
| "js_recalculates ch = False"

definition js_change_item :: "js_product list \<Rightarrow> js_change \<Rightarrow> js_item \<Rightarrow> js_item" where
  "js_change_item products ch item =
     (let updatedItem = js_set_item_field ch item;
          updatedItem =
            (case ch of
               JsChangeProductId v \<Rightarrow>
                 (case find (\<lambda>p. catalog_id p = Some v) products of
                    Some product \<Rightarrow> updatedItem\<lparr>row_sellingPrice := catalog_sellingPrice product\<rparr>
                  | None \<Rightarrow> updatedItem)
             | _ \<Rightarrow> updatedItem)
      in
      if js_recalculates ch
      then updatedItem\<lparr>row_total := js_mul (row_quantity updatedItem) (row_sellingPrice updatedItem)\<rparr>
      else updatedItem)"

definition js_handleItemChange ::
    "js_product list \<Rightarrow> string \<Rightarrow> js_change \<Rightarrow> js_order \<Rightarrow> js_order" where
  "js_handleItemChange products rowId ch prev =
     (let newItems =
            map (\<lambda>item. if row_id item = rowId then js_change_item products ch item else item)
              (rows prev);
          newSubTotal = foldl (\<lambda>sum item. js_add sum (row_total item)) (Num 0) newItems;
          newGstAmount =
            (case js_gstPercentage prev of
               None \<Rightarrow> Num 0
             | Some g \<Rightarrow> if js_truthy g then js_div100 (js_mul newSubTotal g) else Num 0);
          newGrandTotal = js_add newSubTotal newGstAmount
      in prev\<lparr>rows := newItems, js_subTotal := newSubTotal, js_gstAmount := newGstAmount,
              js_grandTotal := newGrandTotal\<rparr>)"

text \<open>
  \<^verbatim>\<open>handleGstChange\<close> (lines 250-262); \<open>val\<close> is the result of \<^verbatim>\<open>parseFloat\<close>, and
  \<^verbatim>\<open>isNaN(val) ? 0 : Math.max(0, val)\<close> the percentage.
\<close>

definition js_handleGstChange :: "jsnum \<Rightarrow> js_order \<Rightarrow> js_order" where
  "js_handleGstChange val prev =
     (let gstPerc = (if val = NaN then Num 0 else js_max0 val);
          gstAmount' = js_div100 (js_mul (js_subTotal prev) gstPerc)
      in prev\<lparr>js_gstPercentage := Some gstPerc, js_gstAmount := gstAmount',
              js_grandTotal := js_add (js_subTotal prev) gstAmount'\<rparr>)"

text \<open>
  The events of the claim on signs, as the markup raises them: a row added (line 411), a
  row removed (line 527), a quantity or a price typed, of which the input passes
  \<^verbatim>\<open>parseFloat(e.target.value) || 0\<close> (lines 483-514), and a percentage typed (line 388).
  The number an event carries is the result of \<^verbatim>\<open>parseFloat\<close>.
\<close>

datatype js_event =
    JsAddItem string
  | JsRemoveItem string
  | JsTypeQuantity string jsnum
  | JsTypePrice string jsnum
  | JsTypeGst jsnum

fun js_step :: "js_product list \<Rightarrow> js_order \<Rightarrow> js_event \<Rightarrow> js_order" where
  "js_step products prev (JsAddItem rowId) = js_handleAddItem rowId prev"
| "js_step products prev (JsRemoveItem rowId) = js_handleRemoveItem rowId prev"
| "js_step products prev (JsTypeQuantity rowId v) =
     js_handleItemChange products rowId (JsChangeQuantity (js_or0 v)) prev"
| "js_step products prev (JsTypePrice rowId v) =
     js_handleItemChange products rowId (JsChangeSellingPrice (js_or0 v)) prev"
| "js_step products prev (JsTypeGst v) = js_handleGstChange v prev"

text \<open>A number that is at least 0 or \<^verbatim>\<open>NaN\<close>.\<close>

fun ge0_or_NaN :: "jsnum \<Rightarrow> bool" where
  "ge0_or_NaN NaN = True"
| "ge0_or_NaN x = js_ge0 x"

text \<open>
  What the form keeps from the empty form on: quantities and prices are at least 0, the
  percentage is a number at least 0, the totals are at least 0 or \<^verbatim>\<open>NaN\<close>, the tax amount
  is the one of the subtotal and the percentage, and the grand total is their sum.
\<close>

definition js_order_inv :: "js_order \<Rightarrow> bool" where
  "js_order_inv f =
     (list_all (\<lambda>item. js_ge0 (row_quantity item) \<and> js_ge0 (row_sellingPrice item) \<and>
                  ge0_or_NaN (row_total item)) (rows f) \<and>
      ge0_or_NaN (js_subTotal f) \<and>
      (case js_gstPercentage f of
         None \<Rightarrow> False
       | Some g \<Rightarrow>
           js_ge0 g \<and>
           (js_gstAmount f = js_div100 (js_mul (js_subTotal f) g) \<or>
            \<not> js_truthy g \<and> js_gstAmount f = Num 0)) \<and>
      js_grandTotal f = js_add (js_subTotal f) (js_gstAmount f))"

text \<open>
  A row priced and counted at \<open>10^200\<close>, then the percentage typed as 0.
\<close>

definition overflow_events :: "js_event list" where
  "overflow_events =
     [JsAddItem ''r1'', JsTypePrice ''r1'' (Num (10 ^ 200)), JsTypeQuantity ''r1'' (Num (10 ^ 200)),
      JsTypeGst (Num 0)]"

text \<open>Two rows typed in the finite range, one quantity typed negative, 18 percent.\<close>

definition finite_events :: "js_event list" where
  "finite_events =
     [JsAddItem ''r1'', JsTypePrice ''r1'' (Num 20), JsTypeQuantity ''r1'' (Num (- 3)),
      JsTypeGst (Num 18), JsAddItem ''r2'', JsTypePrice ''r2'' (Num 5),
      JsTypeQuantity ''r2'' (Num 4), JsRemoveItem ''r1'']"


subsection \<open>The finite range\<close>

text \<open>
  A result strictly between the two bounds is kept; there the handlers over the reals and
  the handlers over JavaScript numbers are the same, as the lemmas on the two handlers
  that multiply show.
\<close>

definition in_range :: "real \<Rightarrow> bool" where
  "in_range x = (- overflow_bound < x \<and> x < overflow_bound)"

definition lift_item :: "SalesOrderItem \<Rightarrow> js_item" where
  "lift_item item =
     \<lparr>row_id = item_id item, row_productId = productId item, row_quantity = Num (quantity item),
      row_sellingPrice = Num (sellingPrice item), row_total = Num (item_total item)\<rparr>"

definition lift_product :: "ProductFormData \<Rightarrow> js_product" where
  "lift_product p =
     \<lparr>catalog_id = product_id p, catalog_sellingPrice = Num (product_sellingPrice p)\<rparr>"

fun lift_change :: "item_change \<Rightarrow> js_change" where
  "lift_change (ChangeItemId v) = JsChangeItemId v"
| "lift_change (ChangeProductId v) = JsChangeProductId v"
| "lift_change (ChangeQuantity v) = JsChangeQuantity (Num v)"
| "lift_change (ChangeSellingPrice v) = JsChangeSellingPrice (Num v)"
| "lift_change (ChangeTotal v) = JsChangeTotal (Num v)"

definition lift_order :: "SalesOrderFormData \<Rightarrow> js_order" where
  "lift_order f =
     \<lparr>rows = map lift_item (items f), js_subTotal = Num (subTotal f),
      js_gstPercentage = map_option Num (gstPercentage f), js_gstAmount = Num (gstAmount f),
      js_grandTotal = Num (grandTotal f)\<rparr>"


section \<open>Properties of the bill form\<close>

subsection \<open>What a submission saves\<close>

lemma bill_handleSubmit_unselected:
  "purchaseOrderId (formData s) = [] \<Longrightarrow> bill_handleSubmit s = ([SelectionRequired], None)"
  by (simp add: bill_handleSubmit_def)

lemma bill_handleSubmit_saved:
  assumes "snd (bill_handleSubmit s) = Some saved"
  shows "paidAmount saved = min (amount (formData s)) (paidAmount (formData s) + newPaymentAmount s)"
    and "amount saved = amount (formData s)"
    and "status saved = Paid \<Longrightarrow> amount (formData s) \<le> paidAmount saved"
    and "status saved = Unpaid \<Longrightarrow> status (formData s) = Unpaid"
  using assms
  by (auto simp: bill_handleSubmit_def Let_def split: if_splits)

text \<open>
  C1. For every submission of the bill form with a purchase order selected, bill amount
  \<open>A\<close>, paid amount \<open>P\<close> and new payment \<open>N\<close>: if the submission is accepted, the bill
  passed to \<^verbatim>\<open>onSave\<close> has \<^verbatim>\<open>paidAmount\<close> equal to \<open>min A (P + N)\<close>.
\<close>

theorem accepted_paidAmount:
  assumes "purchaseOrderId (formData s) \<noteq> []"
    and "snd (bill_handleSubmit s) = Some saved"
  shows "paidAmount saved = min (amount (formData s)) (paidAmount (formData s) + newPaymentAmount s)"
  using assms(2) by (rule bill_handleSubmit_saved(1))

theorem accepted_paidAmount_witness:
  "purchaseOrderId (formData settling_form) \<noteq> [] \<and>
   snd (bill_handleSubmit settling_form) = Some (sample_bill\<lparr>status := Paid, paidAmount := 100\<rparr>) \<and>
   paidAmount (sample_bill\<lparr>status := Paid, paidAmount := 100\<rparr>) = min 100 (40 + 60)"
proof -
  have sel: "purchaseOrderId (formData settling_form) \<noteq> []"
    by (simp add: settling_form_def sample_bill_def)
  have sub: "snd (bill_handleSubmit settling_form) =
      Some (sample_bill\<lparr>status := Paid, paidAmount := 100\<rparr>)"
    by (simp add: bill_handleSubmit_def settling_form_def sample_bill_def)
  from accepted_paidAmount [OF sel sub] sel sub show ?thesis
    by (simp add: settling_form_def sample_bill_def)
qed

text \<open>
  C2, as stated: every submission declared "Partially Paid" whose total paid
  \<open>min A (P + N)\<close> is positive and reaches the bill amount is accepted and saved as
  "Paid". The form with no purchase order chosen refutes it: the total paid is 100 of 100,
  and the submission ends in the toast "Selection Required" with nothing saved.
\<close>

theorem settled_without_selection_rejected:
  "status (formData unselected_form) = PartiallyPaid \<and>
   0 < min (amount (formData unselected_form))
         (paidAmount (formData unselected_form) + newPaymentAmount unselected_form) \<and>
   amount (formData unselected_form)
     \<le> min (amount (formData unselected_form))
         (paidAmount (formData unselected_form) + newPaymentAmount unselected_form) \<and>
   bill_handleSubmit unselected_form = ([SelectionRequired], None)"
  by (simp add: bill_handleSubmit_def unselected_form_def sample_bill_def)

text \<open>
  C2, amended: every submission with a purchase order selected and declared
  "Partially Paid" whose total paid \<open>min A (P + N)\<close> is positive and reaches the bill
  amount is accepted, and the bill passed to \<^verbatim>\<open>onSave\<close> has status "Paid" and that total
  as its paid amount.
\<close>

theorem partial_payment_promoted:
  assumes "purchaseOrderId (formData s) \<noteq> []"
    and "status (formData s) = PartiallyPaid"
    and "0 < min (amount (formData s)) (paidAmount (formData s) + newPaymentAmount s)"
    and "amount (formData s) \<le> min (amount (formData s)) (paidAmount (formData s) + newPaymentAmount s)"
  shows "bill_handleSubmit s =
     ([StatusUpdated],
      Some ((formData s)
        \<lparr>status := Paid,
         paidAmount := min (amount (formData s)) (paidAmount (formData s) + newPaymentAmount s)\<rparr>))"
  using assms by (simp add: bill_handleSubmit_def Let_def)

theorem partial_payment_promoted_witness:
  "purchaseOrderId (formData settling_form) \<noteq> [] \<and>
   status (formData settling_form) = PartiallyPaid \<and>
   bill_handleSubmit settling_form =
     ([StatusUpdated], Some (sample_bill\<lparr>status := Paid, paidAmount := 100\<rparr>))"
proof -
  have a: "purchaseOrderId (formData settling_form) \<noteq> []"
    and b: "status (formData settling_form) = PartiallyPaid"
    and c: "0 < min (amount (formData settling_form))
                   (paidAmount (formData settling_form) + newPaymentAmount settling_form)"
    and d: "amount (formData settling_form)
              \<le> min (amount (formData settling_form))
                   (paidAmount (formData settling_form) + newPaymentAmount settling_form)"
    by (simp_all add: settling_form_def sample_bill_def)
  from partial_payment_promoted [OF a b c d] a b show ?thesis
    by (simp add: settling_form_def sample_bill_def)
qed

text \<open>
  C3. For every submission declared "Paid" with a purchase order selected: if the total
  paid \<open>min A (P + N)\<close> is less than the bill amount, the submission ends in the toast
  "Insufficient Payment", \<^verbatim>\<open>onSave\<close> is not called, so that no bill with a changed status
  is saved, and the bills the page stores are the same as before.
\<close>

theorem paid_with_short_payment_rejected:
  assumes "purchaseOrderId (formData s) \<noteq> []"
    and "status (formData s) = Paid"
    and "min (amount (formData s)) (paidAmount (formData s) + newPaymentAmount s) < amount (formData s)"
  shows "bill_handleSubmit s = ([InsufficientPayment], None) \<and>
         bills_after_submit stamp s bills = bills"
  using assms by (simp add: bill_handleSubmit_def bills_after_submit_def Let_def)

theorem paid_with_short_payment_rejected_witness:
  "purchaseOrderId (formData short_paid_form) \<noteq> [] \<and>
   status (formData short_paid_form) = Paid \<and>
   amount (formData short_paid_form) = 100 \<and>
   paidAmount (formData short_paid_form) = 0 \<and>
   newPaymentAmount short_paid_form = 30 \<and>
   bill_handleSubmit short_paid_form = ([InsufficientPayment], None) \<and>
   bills_after_submit ''1700000000000'' short_paid_form [sample_bill] = [sample_bill]"
proof -
  have a: "purchaseOrderId (formData short_paid_form) \<noteq> []"
    and b: "status (formData short_paid_form) = Paid"
    and c: "min (amount (formData short_paid_form))
               (paidAmount (formData short_paid_form) + newPaymentAmount short_paid_form)
             < amount (formData short_paid_form)"
    by (simp_all add: short_paid_form_def sample_bill_def)
  from paid_with_short_payment_rejected [OF a b c, of "''1700000000000''" "[sample_bill]"] a b
  show ?thesis
    by (simp add: short_paid_form_def sample_bill_def)
qed

text \<open>
  C4. For every submission declared "Partially Paid" with a purchase order selected: if
  the total paid \<open>min A (P + N)\<close> is at most 0, the submission ends in the toast
  "Invalid Amount" and \<^verbatim>\<open>onSave\<close> is not called.
\<close>

theorem partial_with_no_payment_rejected:
  assumes "purchaseOrderId (formData s) \<noteq> []"
    and "status (formData s) = PartiallyPaid"
    and "min (amount (formData s)) (paidAmount (formData s) + newPaymentAmount s) \<le> 0"
  shows "bill_handleSubmit s = ([InvalidAmount], None)"
  using assms by (simp add: bill_handleSubmit_def Let_def)

theorem partial_with_no_payment_rejected_witness:
  "purchaseOrderId (formData nothing_paid_form) \<noteq> [] \<and>
   status (formData nothing_paid_form) = PartiallyPaid \<and>
   amount (formData nothing_paid_form) = 100 \<and>
   paidAmount (formData nothing_paid_form) = 0 \<and>
   newPaymentAmount nothing_paid_form = 0 \<and>
   bill_handleSubmit nothing_paid_form = ([InvalidAmount], None)"
proof -
  have a: "purchaseOrderId (formData nothing_paid_form) \<noteq> []"
    and b: "status (formData nothing_paid_form) = PartiallyPaid"
    and c: "min (amount (formData nothing_paid_form))
               (paidAmount (formData nothing_paid_form) + newPaymentAmount nothing_paid_form) \<le> 0"
    by (simp_all add: nothing_paid_form_def sample_bill_def)
  from partial_with_no_payment_rejected [OF a b c] a b show ?thesis
    by (simp add: nothing_paid_form_def sample_bill_def)
qed

subsection \<open>The invariant of the saved bill\<close>

lemma bill_form_open_inv:
  assumes "case b of None \<Rightarrow> True | Some bl \<Rightarrow> bill_invariant bl \<and> 0 \<le> amount bl"
  shows "bill_form_inv (bill_form_open now genNo b)"
  using assms
  by (cases b) (simp_all add: bill_form_open_def bill_form_inv_def bill_defaultFormData_def
      bill_invariant_def)

lemma handlePurchaseOrderChange_inv:
  assumes "po_totals_nonneg pos" and "bill_form_inv s"
  shows "bill_form_inv (handlePurchaseOrderChange pos sups poId s)"
proof (cases "find (\<lambda>p. po_id p = Some poId) pos")
  case None
  with assms(2) show ?thesis by (simp add: handlePurchaseOrderChange_def)
next
  case (Some po)
  then have "po \<in> set pos"
    by (auto simp: find_Some_iff)
  with assms(1) have "case po_grandTotal po of None \<Rightarrow> True | Some g \<Rightarrow> 0 \<le> g"
    by (simp add: po_totals_nonneg_def list_all_iff)
  with Some assms(2) show ?thesis
    by (simp add: handlePurchaseOrderChange_def bill_form_inv_def Let_def split: option.splits)
qed

lemma handleStatusChange_inv:
  "bill_form_inv s \<Longrightarrow> bill_form_inv (handleStatusChange st s)"
  by (cases st) (simp_all add: handleStatusChange_def bill_form_inv_def Let_def)

lemma bill_ui_step_inv:
  assumes "po_totals_nonneg (purchaseOrders pr)" and "bill_form_inv s"
  shows "bill_form_inv (bill_ui_step pr s ev)"
proof (cases ev)
  case (SelectPurchaseOrder poId)
  with assms show ?thesis by (simp add: handlePurchaseOrderChange_inv)
next
  case (SelectStatus st)
  with assms show ?thesis by (simp add: handleStatusChange_inv)
next
  case (TypePayNow val)
  with assms(2) show ?thesis by (simp add: payNow_onChange_def bill_form_inv_def)
qed (use assms(2) in \<open>simp_all add: bill_form_inv_def\<close>)

lemma bill_ui_steps_inv:
  assumes "po_totals_nonneg (purchaseOrders pr)"
  shows "bill_form_inv s \<Longrightarrow> bill_form_inv (foldl (bill_ui_step pr) s evs)"
  by (induction evs arbitrary: s) (simp_all add: bill_ui_step_inv [OF assms])

text \<open>
  C9, as stated: every bill saved by an accepted submission, for an input bill that
  satisfies the invariant, satisfies it too: "Paid" implies that the paid amount reaches
  the amount, "Unpaid" implies that the paid amount is 0. An unpaid bill whose amount is
  - 5 satisfies the invariant; the form opened on it and submitted saves it as "Unpaid"
  with \<open>min (- 5) (0 + 0) = - 5\<close> paid.
\<close>

theorem negative_amount_saved_unpaid:
  "bill_invariant credit_bill \<and>
   snd (bill_handleSubmit (bill_session 0 [] credit_props [])) =
     Some (credit_bill\<lparr>paidAmount := - 5\<rparr>) \<and>
   \<not> bill_invariant (credit_bill\<lparr>paidAmount := - 5\<rparr>)"
  by (simp add: bill_invariant_def credit_bill_def sample_bill_def credit_props_def
      bill_session_def bill_form_open_def bill_handleSubmit_def)

text \<open>
  C9, amended: when no amount is negative, neither that of the input bill nor the grand
  total of any purchase order in the list passed to the form, whatever its status, every
  bill saved by an accepted submission, after
  any events on the form opened on an input bill that satisfies the invariant (or on no
  bill), satisfies the invariant: "Paid" implies that the paid amount reaches the amount,
  and "Unpaid" implies that the paid amount is 0.
\<close>

theorem saved_bill_invariant:
  assumes input: "case bill pr of None \<Rightarrow> True | Some b \<Rightarrow> bill_invariant b \<and> 0 \<le> amount b"
    and totals: "po_totals_nonneg (purchaseOrders pr)"
    and saved: "snd (bill_handleSubmit (bill_session now genNo pr evs)) = Some saved"
  shows "bill_invariant saved"
proof -
  let ?s = "bill_session now genNo pr evs"
  have inv: "bill_form_inv ?s"
    unfolding bill_session_def
    by (rule bill_ui_steps_inv [OF totals]) (rule bill_form_open_inv [OF input])
  have "status saved = Paid \<longrightarrow> amount saved \<le> paidAmount saved"
    using bill_handleSubmit_saved(2,3) [OF saved] by simp
  moreover have "status saved = Unpaid \<longrightarrow> paidAmount saved = 0"
  proof
    assume "status saved = Unpaid"
    then have "status (formData ?s) = Unpaid"
      by (rule bill_handleSubmit_saved(4) [OF saved])
    with inv have "0 \<le> amount (formData ?s)" "paidAmount (formData ?s) = 0"
        "newPaymentAmount ?s = 0"
      by (simp_all add: bill_form_inv_def)
    with bill_handleSubmit_saved(1) [OF saved] show "paidAmount saved = 0"
      by simp
  qed
  ultimately show ?thesis by (simp add: bill_invariant_def)
qed

theorem saved_bill_invariant_witness:
  "(case bill edit_props of None \<Rightarrow> True | Some b \<Rightarrow> bill_invariant b \<and> 0 \<le> amount b) \<and>
   po_totals_nonneg (purchaseOrders edit_props) \<and>
   snd (bill_handleSubmit (bill_session 0 [] edit_props edit_events)) =
     Some (sample_bill\<lparr>paidAmount := 0, status := Unpaid\<rparr>) \<and>
   bill_invariant (sample_bill\<lparr>paidAmount := 0, status := Unpaid\<rparr>)"
proof -
  have a: "case bill edit_props of None \<Rightarrow> True | Some b \<Rightarrow> bill_invariant b \<and> 0 \<le> amount b"
    by (simp add: edit_props_def sample_bill_def bill_invariant_def)
  have b: "po_totals_nonneg (purchaseOrders edit_props)"
    by (simp add: edit_props_def sample_po_def po_totals_nonneg_def)
  have c: "snd (bill_handleSubmit (bill_session 0 [] edit_props edit_events)) =
      Some (sample_bill\<lparr>paidAmount := 0, status := Unpaid\<rparr>)"
    by (simp add: bill_session_def edit_props_def edit_events_def bill_form_open_def
        sample_bill_def payNow_onChange_def handleStatusChange_def bill_handleSubmit_def Let_def)
  from saved_bill_invariant [OF a b c] a b c show ?thesis
    by simp
qed

section \<open>Properties of the product form\<close>

lemma product_status_code:
  "product_status (product_handleSubmit fd) =
     (if \<not> isActive fd then ''Inactive''
      else if stock fd = 0 then ''Out of Stock''
      else if stock fd \<le> minStock fd then ''Low Stock''
      else ''Active'')"
  by (simp add: product_handleSubmit_def Let_def)

text \<open>
  C8. For every submission of the product form, the saved product is the form with its
  status derived as the specification says: "Out of Stock" if the product is active and
  the stock is 0, "Low Stock" if it is active and the stock is above 0 and at most the
  minimum, "Active" if it is active and the stock is above the minimum, and "Inactive",
  whatever the stock, if it is not active.
\<close>

theorem product_status_derived:
  assumes "status_by_specification (isActive fd) (stock fd) (minStock fd) = Some st"
  shows "product_handleSubmit fd = fd\<lparr>product_status := st\<rparr>"
proof (cases "isActive fd")
  case False
  with assms have "st = ''Inactive''"
    by (simp add: status_by_specification_def)
  with False show ?thesis
    by (simp add: product_handleSubmit_def)
next
  case active: True
  show ?thesis
  proof (cases "stock fd = 0")
    case True
    with active assms have "st = ''Out of Stock''"
      by (simp add: status_by_specification_def)
    with active True show ?thesis
      by (simp add: product_handleSubmit_def)
  next
    case nonzero: False
    show ?thesis
    proof (cases "stock fd \<le> minStock fd")
      case True
      with active nonzero assms have "st = ''Low Stock''"
        by (simp add: status_by_specification_def split: if_splits)
      with active nonzero True show ?thesis
        by (simp add: product_handleSubmit_def)
    next
      case False
      with active nonzero assms have "st = ''Active''"
        by (simp add: status_by_specification_def split: if_splits)
      with active nonzero False show ?thesis
        by (simp add: product_handleSubmit_def)
    qed
  qed
qed

theorem product_status_derived_witness:
  "status_by_specification (isActive (stocked_product\<lparr>stock := 4\<rparr>))
     (stock (stocked_product\<lparr>stock := 4\<rparr>)) (minStock (stocked_product\<lparr>stock := 4\<rparr>))
     = Some ''Low Stock'' \<and>
   product_status (product_handleSubmit (stocked_product\<lparr>stock := 4\<rparr>)) = ''Low Stock'' \<and>
   status_by_specification (isActive (stocked_product\<lparr>isActive := False\<rparr>))
     (stock (stocked_product\<lparr>isActive := False\<rparr>))
     (minStock (stocked_product\<lparr>isActive := False\<rparr>))
     = Some ''Inactive'' \<and>
   product_status (product_handleSubmit (stocked_product\<lparr>isActive := False\<rparr>)) = ''Inactive''"
proof -
  have low: "status_by_specification (isActive (stocked_product\<lparr>stock := 4\<rparr>))
     (stock (stocked_product\<lparr>stock := 4\<rparr>)) (minStock (stocked_product\<lparr>stock := 4\<rparr>))
     = Some ''Low Stock''"
    by (simp add: status_by_specification_def stocked_product_def product_defaultFormData_def)
  have off: "status_by_specification (isActive (stocked_product\<lparr>isActive := False\<rparr>))
     (stock (stocked_product\<lparr>isActive := False\<rparr>))
     (minStock (stocked_product\<lparr>isActive := False\<rparr>))
     = Some ''Inactive''"
    by (simp add: status_by_specification_def stocked_product_def product_defaultFormData_def)
  from product_status_derived [OF low] product_status_derived [OF off] low off
  show ?thesis by simp
qed

section \<open>Properties of the sales-order form\<close>

subsection \<open>The sum of the row totals\<close>

lemma foldl_add_totals:
  "foldl (\<lambda>sum item. sum + item_total item) a its = a + sum_list (map item_total its)"
  by (induction its arbitrary: a) simp_all

lemma reduce_totals:
  "foldl (\<lambda>sum item. sum + item_total item) 0 its = sum_list (map item_total its)"
  by (simp add: foldl_add_totals)

subsection \<open>What each handler leaves in the form\<close>

lemma handleItemChange_items:
  "items (handleItemChange products rowId ch f) =
     map (\<lambda>item. if item_id item = rowId then change_item products ch item else item) (items f)"
  by (simp add: handleItemChange_def Let_def)

lemma handleItemChange_totals:
  "subTotal (handleItemChange products rowId ch f) =
     sum_list (map item_total (items (handleItemChange products rowId ch f)))"
  "gstAmount (handleItemChange products rowId ch f) =
     subTotal (handleItemChange products rowId ch f)
       * shown_gst (handleItemChange products rowId ch f) / 100"
  "grandTotal (handleItemChange products rowId ch f) =
     subTotal (handleItemChange products rowId ch f)
       + gstAmount (handleItemChange products rowId ch f)"
  by (simp_all add: handleItemChange_def Let_def reduce_totals shown_gst_def split: option.splits)

lemma handleGstChange_totals:
  "items (handleGstChange val f) = items f"
  "subTotal (handleGstChange val f) = subTotal f"
  "gstAmount (handleGstChange val f) =
     subTotal (handleGstChange val f) * shown_gst (handleGstChange val f) / 100"
  "grandTotal (handleGstChange val f) =
     subTotal (handleGstChange val f) + gstAmount (handleGstChange val f)"
  by (simp_all add: handleGstChange_def Let_def shown_gst_def)

lemma handleRemoveItem_items:
  "items (handleRemoveItem rowId f) = filter (\<lambda>item. item_id item \<noteq> rowId) (items f)"
  by (simp add: handleRemoveItem_def Let_def)

lemma handleRemoveItem_totals:
  "subTotal (handleRemoveItem rowId f) =
     sum_list (map item_total (filter (\<lambda>item. item_id item \<noteq> rowId) (items f)))"
  "gstAmount (handleRemoveItem rowId f) = subTotal (handleRemoveItem rowId f) * shown_gst f / 100"
  "grandTotal (handleRemoveItem rowId f) =
     subTotal (handleRemoveItem rowId f) + gstAmount (handleRemoveItem rowId f)"
  by (simp_all add: handleRemoveItem_def Let_def reduce_totals shown_gst_def split: option.splits)

lemma change_item_consistent:
  "recalculates ch \<Longrightarrow>
   item_total (change_item products ch item) =
     quantity (change_item products ch item) * sellingPrice (change_item products ch item)"
  by (cases ch) (simp_all add: change_item_def Let_def split: option.splits)

lemma handleItemChange_rows:
  assumes "rows_consistent (items f)" and "recalculates ch"
  shows "rows_consistent (items (handleItemChange products rowId ch f))"
  using assms
  by (auto simp: handleItemChange_items rows_consistent_def list_all_iff change_item_consistent)

subsection \<open>The rows and the subtotal stay consistent through a session\<close>

text \<open>
  The form opens with consistent rows and a consistent subtotal, on a new order as on
  each of the initial orders of the page, and every event the markup can raise keeps
  them so. (The first initial order carries a rounded tax amount, 126.0 for 18 percent of
  699.98.)
\<close>

lemma new_order_consistent: "order_consistent (order_form_open now genRef None)"
  by (simp add: order_form_open_def order_defaultFormData_def order_consistent_def
      rows_consistent_def shown_gst_def)

lemma initialOrders_consistent:
  "list_all (\<lambda>f. rows_consistent (items f) \<and> subTotal_consistent f) (initialOrders now)"
  by (simp add: initialOrders_def subTotal_consistent_def rows_consistent_def)

lemma order_step_consistent:
  assumes "rows_consistent (items f) \<and> subTotal_consistent f" and "ui_event ev"
  shows "rows_consistent (items (order_step products f ev)) \<and>
         subTotal_consistent (order_step products f ev)"
proof (cases ev)
  case (AddItem rowId)
  with assms(1) show ?thesis
    by (simp add: handleAddItem_def rows_consistent_def subTotal_consistent_def)
next
  case (RemoveItem rowId)
  with assms(1) show ?thesis
    by (simp add: handleRemoveItem_items handleRemoveItem_totals rows_consistent_def
        subTotal_consistent_def list_all_iff)
next
  case (ItemChange rowId ch)
  with assms show ?thesis
    by (simp add: handleItemChange_rows handleItemChange_totals subTotal_consistent_def)
next
  case (GstChange val)
  with assms(1) show ?thesis
    by (simp add: handleGstChange_totals subTotal_consistent_def)
qed

lemma order_steps_consistent:
  "rows_consistent (items f) \<and> subTotal_consistent f \<Longrightarrow> list_all ui_event evs \<Longrightarrow>
   rows_consistent (items (foldl (order_step products) f evs)) \<and>
   subTotal_consistent (foldl (order_step products) f evs)"
  by (induction evs arbitrary: f) (simp_all add: order_step_consistent)




subsection \<open>Removing rows\<close>





subsection \<open>Choosing a product\<close>

lemma find_product_present:
  assumes "Some pid \<in> set (map product_id products)"
  shows "\<exists>p. find (\<lambda>p. product_id p = Some pid) products = Some p \<and> p \<in> set products \<and>
             product_id p = Some pid"
proof (cases "find (\<lambda>p. product_id p = Some pid) products")
  case None
  with assms show ?thesis by (auto simp: find_None_iff)
next
  case (Some p)
  then show ?thesis by (auto simp: find_Some_iff)
qed

lemma find_product_absent:
  assumes "Some pid \<notin> set (map product_id products)"
  shows "find (\<lambda>p. product_id p = Some pid) products = None"
proof -
  have "product_id p \<noteq> Some pid" if "p \<in> set products" for p
    using that assms by (metis image_eqI set_map)
  then show ?thesis by (simp add: find_None_iff)
qed

lemma change_item_product:
  "change_item products (ChangeProductId pid) item =
     (case find (\<lambda>p. product_id p = Some pid) products of
        Some p \<Rightarrow> item\<lparr>productId := pid, sellingPrice := product_sellingPrice p,
                    item_total := quantity item * product_sellingPrice p\<rparr>
      | None \<Rightarrow> item\<lparr>productId := pid, item_total := quantity item * sellingPrice item\<rparr>)"
  by (simp add: change_item_def Let_def split: option.splits)

text \<open>
  C10. Changing the product of a row to an identifier that a product of the list has
  stores that identifier, overwrites the selling price of the row with the selling price
  of the first product of the list that has the identifier, and recomputes the total of
  the row as its quantity times the new selling price. Changing it to an identifier that
  no product has stores the identifier and leaves the selling price of the row as it is.
  In both cases every row with another row identifier, and the number of rows, stay as
  they are.
\<close>

theorem product_change_fills_price:
  "length (items (handleItemChange products rowId (ChangeProductId pid) f)) = length (items f) \<and>
   (\<forall>i < length (items f).
      (item_id (items f ! i) \<noteq> rowId \<longrightarrow>
         items (handleItemChange products rowId (ChangeProductId pid) f) ! i = items f ! i) \<and>
      (item_id (items f ! i) = rowId \<and> Some pid \<in> set (map product_id products) \<longrightarrow>
         (\<exists>p. find (\<lambda>p. product_id p = Some pid) products = Some p \<and>
              p \<in> set products \<and> product_id p = Some pid \<and>
              items (handleItemChange products rowId (ChangeProductId pid) f) ! i =
                (items f ! i)\<lparr>productId := pid, sellingPrice := product_sellingPrice p,
                   item_total := quantity (items f ! i) * product_sellingPrice p\<rparr>)) \<and>
      (item_id (items f ! i) = rowId \<and> Some pid \<notin> set (map product_id products) \<longrightarrow>
         items (handleItemChange products rowId (ChangeProductId pid) f) ! i =
           (items f ! i)\<lparr>productId := pid,
              item_total := quantity (items f ! i) * sellingPrice (items f ! i)\<rparr>))"
proof -
  have len: "length (items (handleItemChange products rowId (ChangeProductId pid) f)) =
      length (items f)"
    by (simp add: handleItemChange_items)
  have other: "items (handleItemChange products rowId (ChangeProductId pid) f) ! i = items f ! i"
    if "i < length (items f)" "item_id (items f ! i) \<noteq> rowId" for i
    using that by (simp add: handleItemChange_items)
  have row: "items (handleItemChange products rowId (ChangeProductId pid) f) ! i =
      change_item products (ChangeProductId pid) (items f ! i)"
    if "i < length (items f)" "item_id (items f ! i) = rowId" for i
    using that by (simp add: handleItemChange_items)
  have present: "\<exists>p. find (\<lambda>p. product_id p = Some pid) products = Some p \<and>
              p \<in> set products \<and> product_id p = Some pid \<and>
              items (handleItemChange products rowId (ChangeProductId pid) f) ! i =
                (items f ! i)\<lparr>productId := pid, sellingPrice := product_sellingPrice p,
                   item_total := quantity (items f ! i) * product_sellingPrice p\<rparr>"
    if "i < length (items f)" "item_id (items f ! i) = rowId"
      "Some pid \<in> set (map product_id products)" for i
  proof -
    from find_product_present [OF that(3)] obtain p where
      p: "find (\<lambda>p. product_id p = Some pid) products = Some p" "p \<in> set products"
        "product_id p = Some pid"
      by blast
    with row [OF that(1,2)] show ?thesis
      by (simp add: change_item_product)
  qed
  have absent: "items (handleItemChange products rowId (ChangeProductId pid) f) ! i =
           (items f ! i)\<lparr>productId := pid,
              item_total := quantity (items f ! i) * sellingPrice (items f ! i)\<rparr>"
    if "i < length (items f)" "item_id (items f ! i) = rowId"
      "Some pid \<notin> set (map product_id products)" for i
    using row [OF that(1,2)] find_product_absent [OF that(3)]
    by (simp add: change_item_product)
  show ?thesis
  proof (intro conjI allI impI)
    show "length (items (handleItemChange products rowId (ChangeProductId pid) f)) =
        length (items f)"
      by (rule len)
  next
    fix i
    assume "i < length (items f)" and "item_id (items f ! i) \<noteq> rowId"
    then show "items (handleItemChange products rowId (ChangeProductId pid) f) ! i = items f ! i"
      by (rule other)
  next
    fix i
    assume i: "i < length (items f)"
      and h: "item_id (items f ! i) = rowId \<and> Some pid \<in> set (map product_id products)"
    show "\<exists>p. find (\<lambda>p. product_id p = Some pid) products = Some p \<and>
              p \<in> set products \<and> product_id p = Some pid \<and>
              items (handleItemChange products rowId (ChangeProductId pid) f) ! i =
                (items f ! i)\<lparr>productId := pid, sellingPrice := product_sellingPrice p,
                   item_total := quantity (items f ! i) * product_sellingPrice p\<rparr>"
      by (rule present [OF i conjunct1 [OF h] conjunct2 [OF h]])
  next
    fix i
    assume i: "i < length (items f)"
      and h: "item_id (items f ! i) = rowId \<and> Some pid \<notin> set (map product_id products)"
    show "items (handleItemChange products rowId (ChangeProductId pid) f) ! i =
           (items f ! i)\<lparr>productId := pid,
              item_total := quantity (items f ! i) * sellingPrice (items f ! i)\<rparr>"
      by (rule absent [OF i conjunct1 [OF h] conjunct2 [OF h]])
  qed
qed

theorem product_change_fills_price_witness:
  "item_id (items sample_order ! 0) = ''item-2'' \<and>
   item_id (items sample_order ! 1) \<noteq> ''item-2'' \<and>
   Some ''P-001'' \<in> set (map product_id sample_products) \<and>
   Some ''P-777'' \<notin> set (map product_id sample_products) \<and>
   sellingPrice
     (items (handleItemChange sample_products ''item-2'' (ChangeProductId ''P-001'') sample_order) ! 0)
     = 349.99 \<and>
   item_total
     (items (handleItemChange sample_products ''item-2'' (ChangeProductId ''P-001'') sample_order) ! 0)
     = 3499.9 \<and>
   items (handleItemChange sample_products ''item-2'' (ChangeProductId ''P-001'') sample_order) ! 1
     = items sample_order ! 1 \<and>
   sellingPrice
     (items (handleItemChange sample_products ''item-2'' (ChangeProductId ''P-777'') sample_order) ! 0)
     = 19.99"
proof -
  have rows: "0 < length (items sample_order)" "1 < length (items sample_order)"
    and ids: "item_id (items sample_order ! 0) = ''item-2''"
      "item_id (items sample_order ! 1) \<noteq> ''item-2''"
    and row0: "quantity (items sample_order ! 0) = 10" "sellingPrice (items sample_order ! 0) = 19.99"
    by (simp_all add: sample_order_def)
  have known: "Some ''P-001'' \<in> set (map product_id sample_products)"
    and unknown: "Some ''P-777'' \<notin> set (map product_id sample_products)"
    and first: "find (\<lambda>p. product_id p = Some ''P-001'') sample_products = Some p \<Longrightarrow>
      product_sellingPrice p = 349.99" for p
    by (auto simp: sample_products_def product_defaultFormData_def)
  note chosen =
    product_change_fills_price [of sample_products "''item-2''" "''P-001''" sample_order]
  note missing =
    product_change_fills_price [of sample_products "''item-2''" "''P-777''" sample_order]
  from chosen rows(1) ids(1) known obtain p where
    p: "find (\<lambda>p. product_id p = Some ''P-001'') sample_products = Some p"
      "items (handleItemChange sample_products ''item-2'' (ChangeProductId ''P-001'') sample_order) ! 0 =
        (items sample_order ! 0)\<lparr>productId := ''P-001'', sellingPrice := product_sellingPrice p,
           item_total := quantity (items sample_order ! 0) * product_sellingPrice p\<rparr>"
    by blast
  from p first [OF p(1)] row0 have a:
    "sellingPrice (items (handleItemChange sample_products ''item-2'' (ChangeProductId ''P-001'')
        sample_order) ! 0) = 349.99"
    "item_total (items (handleItemChange sample_products ''item-2'' (ChangeProductId ''P-001'')
        sample_order) ! 0) = 3499.9"
    by simp_all
  from chosen rows(2) ids(2) have b:
    "items (handleItemChange sample_products ''item-2'' (ChangeProductId ''P-001'') sample_order) ! 1
      = items sample_order ! 1"
    by blast
  from missing rows(1) ids(1) unknown have
    "items (handleItemChange sample_products ''item-2'' (ChangeProductId ''P-777'') sample_order) ! 0 =
       (items sample_order ! 0)\<lparr>productId := ''P-777'',
          item_total := quantity (items sample_order ! 0) * sellingPrice (items sample_order ! 0)\<rparr>"
    by blast
  with row0 have c:
    "sellingPrice (items (handleItemChange sample_products ''item-2'' (ChangeProductId ''P-777'')
        sample_order) ! 0) = 19.99"
    by simp
  from ids known unknown a b c show ?thesis
    by simp
qed

subsection \<open>Signs over JavaScript numbers\<close>

lemma overflow_bound_pos: "0 < overflow_bound"
proof -
  have "(2::real) ^ 970 < 2 ^ 1024"
    by (rule power_strict_increasing) simp_all
  then show ?thesis by (simp add: overflow_bound_def)
qed

lemma js_round_ge0: "0 \<le> x \<Longrightarrow> js_ge0 (js_round x)"
  using overflow_bound_pos by (simp add: js_round_def)

lemma js_ge0_ge0_or_NaN: "js_ge0 x \<Longrightarrow> ge0_or_NaN x"
  by (cases x) simp_all

lemma js_mul_ge0_or_NaN:
  "ge0_or_NaN x \<Longrightarrow> ge0_or_NaN y \<Longrightarrow> ge0_or_NaN (js_mul x y)"
  by (cases x; cases y) (simp_all add: js_ge0_ge0_or_NaN js_round_ge0)

lemma js_add_ge0_or_NaN:
  "ge0_or_NaN x \<Longrightarrow> ge0_or_NaN y \<Longrightarrow> ge0_or_NaN (js_add x y)"
  by (cases x; cases y) (simp_all add: js_ge0_ge0_or_NaN js_round_ge0)

lemma js_div100_ge0_or_NaN: "ge0_or_NaN x \<Longrightarrow> ge0_or_NaN (js_div100 x)"
  by (cases x) (simp_all add: js_ge0_ge0_or_NaN js_round_ge0)

lemma js_max0_ge0: "v \<noteq> NaN \<Longrightarrow> js_ge0 (js_max0 v)"
  by (cases v) simp_all

lemma js_or0_not_NaN: "js_or0 v \<noteq> NaN"
  by (cases v) (simp_all add: js_or0_def)

lemma js_sum_ge0_or_NaN:
  assumes "list_all (\<lambda>item. ge0_or_NaN (row_total item)) its" and "ge0_or_NaN a"
  shows "ge0_or_NaN (foldl (\<lambda>sum item. js_add sum (row_total item)) a its)"
  using assms by (induction its arbitrary: a) (simp_all add: js_add_ge0_or_NaN)

text \<open>What \<^verbatim>\<open>handleRemoveItem\<close> and \<^verbatim>\<open>handleItemChange\<close> compute from the new rows.\<close>

lemma js_recomputed_inv:
  assumes its: "list_all (\<lambda>item. js_ge0 (row_quantity item) \<and> js_ge0 (row_sellingPrice item) \<and>
                  ge0_or_NaN (row_total item)) its"
    and g: "js_gstPercentage prev = Some g" "js_ge0 g"
    and sub: "sub = foldl (\<lambda>sum item. js_add sum (row_total item)) (Num 0) its"
    and gst: "gst = (if js_truthy g then js_div100 (js_mul sub g) else Num 0)"
  shows "js_order_inv (prev\<lparr>rows := its, js_subTotal := sub, js_gstAmount := gst,
           js_grandTotal := js_add sub gst\<rparr>)"
proof -
  from its have "list_all (\<lambda>item. ge0_or_NaN (row_total item)) its"
    by (simp add: list_all_iff)
  then have "ge0_or_NaN sub"
    unfolding sub by (rule js_sum_ge0_or_NaN) simp
  with its g gst show ?thesis
    by (simp add: js_order_inv_def)
qed

lemma js_handleAddItem_inv: "js_order_inv f \<Longrightarrow> js_order_inv (js_handleAddItem rowId f)"
  by (auto simp: js_order_inv_def js_handleAddItem_def split: option.splits)

lemma js_handleRemoveItem_inv:
  assumes "js_order_inv f"
  shows "js_order_inv (js_handleRemoveItem rowId f)"
proof -
  from assms obtain g where g: "js_gstPercentage f = Some g" "js_ge0 g"
    by (auto simp: js_order_inv_def split: option.splits)
  let ?its = "filter (\<lambda>item. row_id item \<noteq> rowId) (rows f)"
  have its: "list_all (\<lambda>item. js_ge0 (row_quantity item) \<and> js_ge0 (row_sellingPrice item) \<and>
                  ge0_or_NaN (row_total item)) ?its"
    using assms by (simp add: js_order_inv_def list_all_iff)
  show ?thesis
    using js_recomputed_inv [OF its g refl refl] g
    by (simp add: js_handleRemoveItem_def Let_def)
qed

lemma js_change_item_ok:
  assumes "js_ge0 (row_quantity item) \<and> js_ge0 (row_sellingPrice item) \<and> ge0_or_NaN (row_total item)"
    and "ch = JsChangeQuantity (js_or0 v) \<or> ch = JsChangeSellingPrice (js_or0 v)"
  shows "js_ge0 (row_quantity (js_change_item products ch item)) \<and>
         js_ge0 (row_sellingPrice (js_change_item products ch item)) \<and>
         ge0_or_NaN (row_total (js_change_item products ch item))"
  using assms
  by (auto simp: js_change_item_def Let_def js_max0_ge0 js_or0_not_NaN js_mul_ge0_or_NaN
      js_ge0_ge0_or_NaN)

lemma js_handleItemChange_inv:
  assumes "js_order_inv f"
    and ch: "ch = JsChangeQuantity (js_or0 v) \<or> ch = JsChangeSellingPrice (js_or0 v)"
  shows "js_order_inv (js_handleItemChange products rowId ch f)"
proof -
  from assms obtain g where g: "js_gstPercentage f = Some g" "js_ge0 g"
    by (auto simp: js_order_inv_def split: option.splits)
  let ?its = "map (\<lambda>item. if row_id item = rowId then js_change_item products ch item else item)
      (rows f)"
  have its: "list_all (\<lambda>item. js_ge0 (row_quantity item) \<and> js_ge0 (row_sellingPrice item) \<and>
                  ge0_or_NaN (row_total item)) ?its"
    using assms(1) js_change_item_ok [OF _ ch]
    by (auto simp: js_order_inv_def list_all_iff)
  show ?thesis
    using js_recomputed_inv [OF its g refl refl] g
    by (simp add: js_handleItemChange_def Let_def)
qed

lemma js_handleGstChange_inv:
  assumes "js_order_inv f"
  shows "js_order_inv (js_handleGstChange val f)"
proof -
  have "js_ge0 (if val = NaN then Num 0 else js_max0 val)"
    by (simp add: js_max0_ge0)
  with assms show ?thesis
    by (simp add: js_order_inv_def js_handleGstChange_def Let_def)
qed

lemma js_step_inv: "js_order_inv f \<Longrightarrow> js_order_inv (js_step products f ev)"
  by (cases ev)
    (simp_all add: js_handleAddItem_inv js_handleRemoveItem_inv js_handleItemChange_inv
      js_handleGstChange_inv)

lemma js_steps_inv: "js_order_inv f \<Longrightarrow> js_order_inv (foldl (js_step products) f evs)"
  by (induction evs arbitrary: f) (simp_all add: js_step_inv)

lemma js_defaultFormData_inv: "js_order_inv js_defaultFormData"
  using overflow_bound_pos by (simp add: js_order_inv_def js_defaultFormData_def js_round_def)

lemma js_order_inv_totals:
  assumes "js_order_inv f"
  shows "ge0_or_NaN (js_subTotal f)" and "ge0_or_NaN (js_gstAmount f)"
    and "ge0_or_NaN (js_grandTotal f)"
proof -
  from assms obtain g where g: "js_gstPercentage f = Some g" "js_ge0 g"
    and gst: "js_gstAmount f = js_div100 (js_mul (js_subTotal f) g) \<or> js_gstAmount f = Num 0"
    by (auto simp: js_order_inv_def split: option.splits)
  from assms show sub: "ge0_or_NaN (js_subTotal f)"
    by (simp add: js_order_inv_def)
  from gst sub g(2) show tax: "ge0_or_NaN (js_gstAmount f)"
    by (auto simp: js_div100_ge0_or_NaN js_mul_ge0_or_NaN js_ge0_ge0_or_NaN)
  from assms have "js_grandTotal f = js_add (js_subTotal f) (js_gstAmount f)"
    by (simp add: js_order_inv_def split: option.splits)
  with sub tax show "ge0_or_NaN (js_grandTotal f)"
    by (simp add: js_add_ge0_or_NaN)
qed

lemma js_order_inv_finite:
  assumes "js_order_inv f" and "js_finite (js_subTotal f)"
    and "case js_gstPercentage f of None \<Rightarrow> False | Some g \<Rightarrow> js_finite g"
  shows "js_ge0 (js_subTotal f) \<and> js_ge0 (js_gstAmount f) \<and> js_ge0 (js_grandTotal f)"
proof -
  from assms(2) obtain s where s: "js_subTotal f = Num s"
    by (cases "js_subTotal f") simp_all
  from assms(1,3) obtain t where t: "js_gstPercentage f = Some (Num t)" "0 \<le> t"
    by (cases "js_gstPercentage f"; cases "the (js_gstPercentage f)")
      (auto simp: js_order_inv_def)
  from assms(1) s have s0: "0 \<le> s"
    by (simp add: js_order_inv_def)
  from assms(1) s t have gst: "js_gstAmount f = js_div100 (js_round (s * t)) \<or> js_gstAmount f = Num 0"
    by (auto simp: js_order_inv_def)
  have "js_ge0 (js_round (s * t))"
    using s0 t(2) by (simp add: js_round_ge0)
  then have "js_ge0 (js_div100 (js_round (s * t)))"
    by (cases "js_round (s * t)") (simp_all add: js_round_ge0)
  with gst have tax: "js_ge0 (js_gstAmount f)"
    by auto
  from assms(1) s have "js_grandTotal f = js_add (Num s) (js_gstAmount f)"
    by (simp add: js_order_inv_def split: option.splits)
  with tax s0 have "js_ge0 (js_grandTotal f)"
    by (cases "js_gstAmount f") (simp_all add: js_round_ge0)
  with s s0 tax show ?thesis by simp
qed

text \<open>
  C7, as stated: starting from the empty sales-order form, after any sequence of rows
  added, rows removed, quantities and prices typed and GST rates typed, the numbers typed
  being clamped at 0, \<^verbatim>\<open>subTotal\<close>, \<^verbatim>\<open>gstAmount\<close> and \<^verbatim>\<open>grandTotal\<close> are each at
  least 0. A row priced at \<open>10^200\<close> and counted \<open>10^200\<close> times has the total
  \<^verbatim>\<open>Infinity\<close>, and so has the subtotal; typing the percentage 0 then stores
  \<^verbatim>\<open>Infinity * 0 / 100\<close>, which is \<^verbatim>\<open>NaN\<close>, as the tax amount and \<^verbatim>\<open>NaN\<close> as the
  grand total, and \<^verbatim>\<open>NaN >= 0\<close> does not hold.
\<close>

theorem overflow_makes_totals_NaN:
  "js_subTotal (foldl (js_step []) js_defaultFormData overflow_events) = PosInf \<and>
   js_gstAmount (foldl (js_step []) js_defaultFormData overflow_events) = NaN \<and>
   js_grandTotal (foldl (js_step []) js_defaultFormData overflow_events) = NaN \<and>
   \<not> js_ge0 (js_gstAmount (foldl (js_step []) js_defaultFormData overflow_events)) \<and>
   \<not> js_ge0 (js_grandTotal (foldl (js_step []) js_defaultFormData overflow_events))"
proof -
  have big: "overflow_bound \<le> 10 ^ 200 * 10 ^ 200"
    by (simp add: overflow_bound_def)
  have small: "\<not> overflow_bound \<le> 10 ^ 200" "\<not> (10::real) ^ 200 \<le> - overflow_bound"
    "\<not> overflow_bound \<le> 0" "\<not> overflow_bound \<le> 1"
    by (simp_all add: overflow_bound_def)
  have f: "foldl (js_step []) js_defaultFormData overflow_events =
      \<lparr>rows = [\<lparr>row_id = ''r1'', row_productId = [], row_quantity = Num (10 ^ 200),
                row_sellingPrice = Num (10 ^ 200), row_total = PosInf\<rparr>],
       js_subTotal = PosInf, js_gstPercentage = Some (Num 0), js_gstAmount = NaN,
       js_grandTotal = NaN\<rparr>"
    using big small
    by (simp add: overflow_events_def js_defaultFormData_def js_handleAddItem_def
        js_handleItemChange_def js_change_item_def js_handleGstChange_def js_or0_def
        js_round_def Let_def)
  show ?thesis
    by (simp add: f)
qed

text \<open>
  C7, amended: starting from the empty sales-order form, after any sequence of rows
  added, rows removed, quantities and prices typed and GST rates typed, the numbers typed
  being clamped at 0, each of \<^verbatim>\<open>subTotal\<close>, \<^verbatim>\<open>gstAmount\<close> and \<^verbatim>\<open>grandTotal\<close> is at
  least 0 or is \<^verbatim>\<open>NaN\<close>, and all three are at least 0 whenever the subtotal and the
  percentage of the form are finite.
\<close>

theorem totals_nonneg_or_NaN:
  "ge0_or_NaN (js_subTotal (foldl (js_step products) js_defaultFormData evs)) \<and>
   ge0_or_NaN (js_gstAmount (foldl (js_step products) js_defaultFormData evs)) \<and>
   ge0_or_NaN (js_grandTotal (foldl (js_step products) js_defaultFormData evs)) \<and>
   (js_finite (js_subTotal (foldl (js_step products) js_defaultFormData evs)) \<and>
    (case js_gstPercentage (foldl (js_step products) js_defaultFormData evs) of
       None \<Rightarrow> False
     | Some g \<Rightarrow> js_finite g) \<longrightarrow>
    js_ge0 (js_subTotal (foldl (js_step products) js_defaultFormData evs)) \<and>
    js_ge0 (js_gstAmount (foldl (js_step products) js_defaultFormData evs)) \<and>
    js_ge0 (js_grandTotal (foldl (js_step products) js_defaultFormData evs)))"
proof -
  have inv: "js_order_inv (foldl (js_step products) js_defaultFormData evs)"
    by (rule js_steps_inv) (rule js_defaultFormData_inv)
  from js_order_inv_totals [OF inv] js_order_inv_finite [OF inv] show ?thesis
    by blast
qed

theorem totals_nonneg_or_NaN_witness:
  "js_finite (js_subTotal (foldl (js_step []) js_defaultFormData finite_events)) \<and>
   (case js_gstPercentage (foldl (js_step []) js_defaultFormData finite_events) of
      None \<Rightarrow> False
    | Some g \<Rightarrow> js_finite g) \<and>
   js_subTotal (foldl (js_step []) js_defaultFormData finite_events) = Num 20 \<and>
   js_ge0 (js_subTotal (foldl (js_step []) js_defaultFormData finite_events)) \<and>
   js_ge0 (js_gstAmount (foldl (js_step []) js_defaultFormData finite_events)) \<and>
   js_ge0 (js_grandTotal (foldl (js_step []) js_defaultFormData finite_events))"
proof -
  have small: "\<not> overflow_bound \<le> x" "\<not> x \<le> - overflow_bound" if "0 \<le> x" "x \<le> 100" for x
  proof -
    have "(2::real) ^ 971 \<le> 2 ^ 1024"
      by (rule power_increasing) simp_all
    moreover have "(100::real) < 2 ^ 970"
      by simp
    ultimately have "100 < overflow_bound"
      by (simp add: overflow_bound_def)
    with that show "\<not> overflow_bound \<le> x" "\<not> x \<le> - overflow_bound"
      by simp_all
  qed
  have sub: "js_subTotal (foldl (js_step []) js_defaultFormData finite_events) = Num 20"
    and pct: "js_gstPercentage (foldl (js_step []) js_defaultFormData finite_events) = Some (Num 18)"
    by (simp_all add: finite_events_def js_defaultFormData_def js_handleAddItem_def
        js_handleItemChange_def js_change_item_def js_handleGstChange_def js_handleRemoveItem_def
        js_or0_def js_round_def small Let_def)
  from totals_nonneg_or_NaN [of "[]" finite_events] sub pct show ?thesis
    by simp
qed

subsection \<open>The two embeddings agree in the finite range\<close>

lemma js_round_in_range: "in_range x \<Longrightarrow> js_round x = Num x"
  by (simp add: in_range_def js_round_def)

lemma find_lift_product:
  "find (\<lambda>p. catalog_id p = Some v) (map lift_product products) =
     map_option lift_product (find (\<lambda>p. product_id p = Some v) products)"
  by (induction products) (simp_all add: lift_product_def)

lemma js_change_item_lift:
  assumes "in_range (quantity (change_item products ch item) * sellingPrice (change_item products ch item))"
  shows "js_change_item (map lift_product products) (lift_change ch) (lift_item item) =
         lift_item (change_item products ch item)"
proof (cases ch)
  case (ChangeProductId v)
  with assms show ?thesis
    by (cases "find (\<lambda>p. product_id p = Some v) products")
      (simp_all add: js_change_item_def change_item_def lift_item_def lift_product_def
        find_lift_product js_round_in_range Let_def)
next
  case (ChangeQuantity v)
  with assms show ?thesis
    by (simp add: js_change_item_def change_item_def lift_item_def js_round_in_range Let_def)
next
  case (ChangeSellingPrice v)
  with assms show ?thesis
    by (simp add: js_change_item_def change_item_def lift_item_def js_round_in_range Let_def)
qed (simp_all add: js_change_item_def change_item_def lift_item_def Let_def)

lemma js_handleGstChange_lift:
  assumes "in_range (subTotal f * max 0 v)" and "in_range (subTotal f * max 0 v / 100)"
    and "in_range (subTotal f + subTotal f * max 0 v / 100)"
  shows "js_handleGstChange (Num v) (lift_order f) = lift_order (handleGstChange (Some v) f)"
  using assms
  by (simp add: js_handleGstChange_def handleGstChange_def lift_order_def js_round_in_range Let_def)

lemma js_handleGstChange_lift_NaN:
  assumes "in_range (subTotal f)"
  shows "js_handleGstChange NaN (lift_order f) = lift_order (handleGstChange None f)"
proof -
  have "in_range 0"
    using overflow_bound_pos by (simp add: in_range_def)
  then have "js_round 0 = Num 0"
    by (rule js_round_in_range)
  moreover from assms have "js_round (subTotal f) = Num (subTotal f)"
    by (rule js_round_in_range)
  ultimately show ?thesis
    by (simp add: js_handleGstChange_def handleGstChange_def lift_order_def Let_def)
qed

end
